theory Spec2Isabelle
  imports Complex_Main
begin

section \<open>Numeric values\<close>

text \<open>
  The analyzer computes on IEEE doubles held in pandas series. A double is modelled as
  a real number or one of the three special values; arithmetic on finite values is
  exact (rounding error and signed zeros are abstracted), arithmetic on the special
  values follows IEEE 754.
\<close>

datatype pyfloat = Fin real | PInf | NInf | NaN

fun isnan :: "pyfloat \<Rightarrow> bool" where
  "isnan NaN = True"
| "isnan _ = False"

fun isinf :: "pyfloat \<Rightarrow> bool" where
  "isinf PInf = True"
| "isinf NInf = True"
| "isinf _ = False"

fun fin_val :: "pyfloat \<Rightarrow> real" where
  "fin_val (Fin x) = x"
| "fin_val _ = 0"

fun fl_neg :: "pyfloat \<Rightarrow> pyfloat" where
  "fl_neg (Fin x) = Fin (- x)"
| "fl_neg PInf = NInf"
| "fl_neg NInf = PInf"
| "fl_neg NaN = NaN"

fun fl_add :: "pyfloat \<Rightarrow> pyfloat \<Rightarrow> pyfloat" where
  "fl_add (Fin x) (Fin y) = Fin (x + y)"
| "fl_add NaN _ = NaN"
| "fl_add _ NaN = NaN"
| "fl_add PInf NInf = NaN"
| "fl_add NInf PInf = NaN"
| "fl_add PInf _ = PInf"
| "fl_add _ PInf = PInf"
| "fl_add NInf _ = NInf"
| "fl_add _ NInf = NInf"

definition fl_sub :: "pyfloat \<Rightarrow> pyfloat \<Rightarrow> pyfloat" where
  "fl_sub a b = fl_add a (fl_neg b)"

fun fl_div :: "pyfloat \<Rightarrow> pyfloat \<Rightarrow> pyfloat" where
  "fl_div (Fin x) (Fin y) =
     (if y = 0 then (if x = 0 then NaN else if 0 < x then PInf else NInf)
      else Fin (x / y))"
| "fl_div NaN _ = NaN"
| "fl_div _ NaN = NaN"
| "fl_div (Fin x) _ = Fin 0"
| "fl_div PInf (Fin y) = (if 0 \<le> y then PInf else NInf)"
| "fl_div NInf (Fin y) = (if 0 \<le> y then NInf else PInf)"
| "fl_div _ _ = NaN"

fun fl_lt :: "pyfloat \<Rightarrow> pyfloat \<Rightarrow> bool" where
  "fl_lt (Fin x) (Fin y) = (x < y)"
| "fl_lt NaN _ = False"
| "fl_lt _ NaN = False"
| "fl_lt NInf NInf = False"
| "fl_lt NInf _ = True"
| "fl_lt PInf _ = False"
| "fl_lt _ PInf = True"
| "fl_lt _ NInf = False"

text \<open>
  A Python scalar as the helper functions receive it: \<open>None\<close>, an \<open>int\<close>, or a
  \<open>float\<close> (numpy's \<open>float64\<close> is a subclass of \<open>float\<close>).
\<close>

datatype pynum = PyNone | PyInt int | PyFloat pyfloat

text \<open>
  \<open>round(x, 2)\<close>: the nearest multiple of 0.01, a tie going to the even multiple.
\<close>

definition py_round2 :: "real \<Rightarrow> real" where
  "py_round2 x =
     (let y = x * 100; f = \<lfloor>y\<rfloor>; d = y - of_int f
      in of_int (if d < 1 / 2 then f
                 else if 1 / 2 < d then f + 1
                 else if even f then f else f + 1) / 100)"

text \<open>\<open>safe_round(value, 2)\<close>; the last \<open>return None\<close> is for values that are no numbers.\<close>

fun safe_round :: "pynum \<Rightarrow> pyfloat option" where
  "safe_round PyNone = None"
| "safe_round (PyInt n) = Some (Fin (py_round2 (of_int n)))"
| "safe_round (PyFloat v) =
     (if isnan v \<or> isinf v then None else Some (Fin (py_round2 (fin_val v))))"

text \<open>\<open>safe_float(value, default)\<close>: a Python float that is finite.\<close>

fun safe_float :: "pynum \<Rightarrow> real \<Rightarrow> real" where
  "safe_float PyNone dflt = dflt"
| "safe_float (PyInt n) dflt = of_int n"
| "safe_float (PyFloat v) dflt = (if isnan v \<or> isinf v then dflt else fin_val v)"

text \<open>
  Python's two-argument \<open>min\<close> and \<open>max\<close> keep the first argument unless the second
  is strictly smaller (larger).
\<close>

fun py_to_float :: "pynum \<Rightarrow> pyfloat" where
  "py_to_float (PyInt n) = Fin (of_int n)"
| "py_to_float (PyFloat v) = v"
| "py_to_float PyNone = NaN"

definition py_min :: "pynum \<Rightarrow> pynum \<Rightarrow> pynum" where
  "py_min a b = (if fl_lt (py_to_float b) (py_to_float a) then b else a)"

definition py_max :: "pynum \<Rightarrow> pynum \<Rightarrow> pynum" where
  "py_max a b = (if fl_lt (py_to_float a) (py_to_float b) then b else a)"

section \<open>Series operations of the data-frame library\<close>

text \<open>\<open>Series.diff()\<close>: the first entry is NaN, every other the difference to its predecessor.\<close>

fun diff :: "pyfloat list \<Rightarrow> pyfloat list" where
  "diff [] = []"
| "diff (x # xs) = NaN # map (\<lambda>(a, b). fl_sub a b) (zip xs (x # xs))"

text \<open>\<open>Series.where(cond, 0)\<close>: entries where the condition is false (also NaN) become 0.\<close>

definition where0 :: "(pyfloat \<Rightarrow> bool) \<Rightarrow> pyfloat list \<Rightarrow> pyfloat list" where
  "where0 cond xs = map (\<lambda>d. if cond d then d else Fin 0) xs"

text \<open>
  \<open>Series.rolling(window=w).mean()\<close>: infinite entries are first turned into NaN; row
  \<open>i\<close> is NaN unless the window of the \<open>w\<close> entries ending at \<open>i\<close> lies inside the
  series and holds no NaN, and is then the mean of the window.
\<close>

definition window_mean :: "pyfloat list \<Rightarrow> pyfloat" where
  "window_mean ws =
     (if list_all (\<lambda>v. \<not> isnan v \<and> \<not> isinf v) ws
      then Fin (sum_list (map fin_val ws) / real (length ws)) else NaN)"

definition rolling_mean :: "nat \<Rightarrow> pyfloat list \<Rightarrow> pyfloat list" where
  "rolling_mean w xs =
     map (\<lambda>i. if i + 1 < w then NaN else window_mean (take w (drop (i + 1 - w) xs)))
       [0..<length xs]"

text \<open>\<open>Series.replace(0, np.nan)\<close>.\<close>

definition replace0 :: "pyfloat list \<Rightarrow> pyfloat list" where
  "replace0 xs = map (\<lambda>v. if v = Fin 0 then NaN else v) xs"

text \<open>Element-wise arithmetic of two series on the same index.\<close>

definition series_div :: "pyfloat list \<Rightarrow> pyfloat list \<Rightarrow> pyfloat list" where
  "series_div xs ys = map (\<lambda>(a, b). fl_div a b) (zip xs ys)"

definition series_sub :: "pyfloat list \<Rightarrow> pyfloat list \<Rightarrow> pyfloat list" where
  "series_sub xs ys = map (\<lambda>(a, b). fl_sub a b) (zip xs ys)"

text \<open>\<open>series.iloc[-1]\<close> raises IndexError on an empty series.\<close>

fun iloc_last :: "'a list \<Rightarrow> 'a option" where
  "iloc_last [] = None"
| "iloc_last xs = Some (last xs)"

section \<open>Indicators\<close>

text \<open>\<open>StockAnalyzer.calculate_rsi\<close> with \<open>period = 14\<close>; no step of it raises.\<close>

definition rsi_gain :: "pyfloat list \<Rightarrow> pyfloat list" where
  "rsi_gain prices = rolling_mean 14 (where0 (\<lambda>d. fl_lt (Fin 0) d) (diff prices))"

definition rsi_loss :: "pyfloat list \<Rightarrow> pyfloat list" where
  "rsi_loss prices =
     rolling_mean 14 (map fl_neg (where0 (\<lambda>d. fl_lt d (Fin 0)) (diff prices)))"

definition calculate_rsi :: "pyfloat list \<Rightarrow> pyfloat list" where
  "calculate_rsi prices =
     (let gain = rsi_gain prices;
          loss = rsi_loss prices;
          loss_safe = replace0 loss;
          rs = series_div gain loss_safe
      in map (\<lambda>r. fl_sub (Fin 100) (fl_div (Fin 100) (fl_add (Fin 1) r))) rs)"

text \<open>
  \<open>Series.ewm(span=s, adjust=False).mean()\<close>. Infinite entries are first turned into
  NaN. The library keeps the running average \<open>weighted\<close> and the weight \<open>old_wt\<close> of
  the history: a NaN entry repeats the last average and ages the history, the first
  entries before any observation are NaN.
\<close>

definition ewm_prep :: "pyfloat list \<Rightarrow> pyfloat list" where
  "ewm_prep xs = map (\<lambda>v. if isinf v then NaN else v) xs"

fun ewm_step :: "real \<Rightarrow> pyfloat \<times> real \<Rightarrow> pyfloat \<Rightarrow> pyfloat \<times> real" where
  "ewm_step alpha (weighted, old_wt) cur =
     (if \<not> isnan weighted then
        (let old_wt1 = old_wt * (1 - alpha) in
         if \<not> isnan cur then
           ((if weighted \<noteq> cur
             then Fin ((old_wt1 * fin_val weighted + alpha * fin_val cur) / (old_wt1 + alpha))
             else weighted), 1)
         else (weighted, old_wt1))
      else if \<not> isnan cur then (cur, old_wt)
      else (weighted, old_wt))"

fun ewm_loop :: "real \<Rightarrow> pyfloat \<times> real \<Rightarrow> pyfloat list \<Rightarrow> pyfloat list" where
  "ewm_loop alpha st [] = []"
| "ewm_loop alpha st (cur # rest) =
     (let st1 = ewm_step alpha st cur in fst st1 # ewm_loop alpha st1 rest)"

definition ewm_mean :: "real \<Rightarrow> pyfloat list \<Rightarrow> pyfloat list" where
  "ewm_mean spn xs =
     (case ewm_prep xs of
        [] \<Rightarrow> []
      | v # vs \<Rightarrow> v # ewm_loop (2 / (spn + 1)) (v, 1) vs)"

text \<open>\<open>StockAnalyzer.calculate_macd\<close> with \<open>fast = 12\<close>, \<open>slow = 26\<close>, \<open>signal = 9\<close>.\<close>

definition calculate_macd :: "pyfloat list \<Rightarrow> pyfloat list \<times> pyfloat list" where
  "calculate_macd prices =
     (let exp1 = ewm_mean 12 prices;
          exp2 = ewm_mean 26 prices;
          macd = series_sub exp1 exp2;
          signal_line = ewm_mean 9 macd
      in (macd, signal_line))"

section \<open>Price history\<close>

text \<open>
  One row of the frame the market-data source returns. \<open>Date\<close> is a day number,
  \<open>Others\<close> holds the further columns of the frame (dividends, stock splits).
\<close>

record price_row =
  Date :: int
  Open :: pyfloat
  High :: pyfloat
  Low :: pyfloat
  Close :: pyfloat
  Volume :: int
  Others :: "pyfloat list"

section \<open>Indicator engine\<close>

record indicator_row =
  r_date :: int
  r_open :: "pyfloat option"
  r_high :: "pyfloat option"
  r_low :: "pyfloat option"
  r_close :: "pyfloat option"
  r_volume :: int
  r_ma7 :: "pyfloat option"
  r_ma20 :: "pyfloat option"
  r_ma50 :: "pyfloat option"
  r_rsi :: "pyfloat option"
  r_macd :: "pyfloat option"
  r_signal :: "pyfloat option"

text \<open>
  \<open>StockAnalyzer.get_historical_data\<close>. The argument is what
  \<open>self.stock.history(period=period)\<close> yields: \<open>None\<close> when the call raises.
\<close>

definition get_historical_data :: "price_row list option \<Rightarrow> indicator_row list" where
  "get_historical_data hist =
     (case hist of
        None \<Rightarrow> []
      | Some df \<Rightarrow>
          if df = [] then []
          else
            (let closes = map Close df;
                 MA7 = rolling_mean 7 closes;
                 MA20 = rolling_mean 20 closes;
                 MA50 = rolling_mean 50 closes;
                 RSI = calculate_rsi closes;
                 macd_result = calculate_macd closes;
                 MACD = fst macd_result;
                 Signal = snd macd_result
             in map (\<lambda>i.
                  \<lparr>r_date = Date (df ! i),
                   r_open = safe_round (PyFloat (Open (df ! i))),
                   r_high = safe_round (PyFloat (High (df ! i))),
                   r_low = safe_round (PyFloat (Low (df ! i))),
                   r_close = safe_round (PyFloat (Close (df ! i))),
                   r_volume = Volume (df ! i),
                   r_ma7 = safe_round (PyFloat (MA7 ! i)),
                   r_ma20 = safe_round (PyFloat (MA20 ! i)),
                   r_ma50 = safe_round (PyFloat (MA50 ! i)),
                   r_rsi = safe_round (PyFloat (RSI ! i)),
                   r_macd = safe_round (PyFloat (MACD ! i)),
                   r_signal = safe_round (PyFloat (Signal ! i))\<rparr>)
                [0..<length df]))"

section \<open>Signal classifier\<close>

record signal_result =
  s_signal :: string
  s_strength :: "pyfloat option"
  s_rsi :: "pyfloat option"
  s_price_vs_ma20 :: "pyfloat option"

definition degenerate_signal :: signal_result where
  "degenerate_signal =
     \<lparr>s_signal = ''HOLD'', s_strength = Some (Fin 0), s_rsi = None, s_price_vs_ma20 = None\<rparr>"

definition signal_score :: "real \<Rightarrow> real \<Rightarrow> real \<Rightarrow> int" where
  "signal_score current_price ma20 rsi =
     (if current_price > ma20 then 1 else - 1)
     + (if rsi < 30 then 2 else if rsi > 70 then - 2 else 0)"

definition final_signal :: "int \<Rightarrow> string \<times> pynum" where
  "final_signal score =
     (if score \<ge> 2
        then (''STRONG BUY'', py_min (PyInt 100) (PyFloat (Fin (of_int score / 3 * 100))))
      else if score = 1 then (''BUY'', PyInt 60)
      else if score = - 1 then (''SELL'', PyInt 60)
      else if score \<le> - 2
        then (''STRONG SELL'', py_min (PyInt 100) (PyFloat (Fin (\<bar>of_int score / 3\<bar> * 100))))
      else (''HOLD'', PyInt 50))"

text \<open>
  The body of the \<open>try\<close> block after the short-history test, on the column
  \<open>df['Close']\<close>; \<open>None\<close> stands for a raised exception.
\<close>

definition price_deviation :: "real \<Rightarrow> real \<Rightarrow> pynum" where
  "price_deviation current_price ma20 =
     (if ma20 \<noteq> 0 then PyFloat (Fin ((current_price - ma20) / ma20 * 100)) else PyInt 0)"

definition sentiment_body :: "pyfloat list \<Rightarrow> signal_result option" where
  "sentiment_body closes =
     (case iloc_last closes of None \<Rightarrow> None | Some c \<Rightarrow>
      case iloc_last (rolling_mean 20 closes) of None \<Rightarrow> None | Some m \<Rightarrow>
      case iloc_last (calculate_rsi closes) of None \<Rightarrow> None | Some rsi_value \<Rightarrow>
        (let current_price = safe_float (PyFloat c) 0;
             ma20 = safe_float (PyFloat m) 0;
             rsi = safe_float (PyFloat rsi_value) 50;
             signal_strength = final_signal (signal_score current_price ma20 rsi);
             price_vs_ma20 = price_deviation current_price ma20
         in Some \<lparr>s_signal = fst signal_strength,
                  s_strength = safe_round (snd signal_strength),
                  s_rsi = safe_round (PyFloat (Fin rsi)),
                  s_price_vs_ma20 = safe_round price_vs_ma20\<rparr>))"

text \<open>
  \<open>StockAnalyzer.get_sentiment_signal\<close>. The argument is what
  \<open>self.stock.history(period='1mo')\<close> yields: \<open>None\<close> when the call raises.
\<close>

definition get_sentiment_signal :: "price_row list option \<Rightarrow> signal_result" where
  "get_sentiment_signal hist =
     (case hist of
        None \<Rightarrow> degenerate_signal
      | Some df \<Rightarrow>
          if length df < 20 then degenerate_signal
          else (case sentiment_body (map Close df) of
                  None \<Rightarrow> degenerate_signal
                | Some r \<Rightarrow> r))"

section \<open>Regression forecaster\<close>

text \<open>
  \<open>MinMaxScaler\<close> on one column: \<open>fit\<close> keeps \<open>scale_\<close> and \<open>min_\<close>, a column of
  zero range is scaled by 1.
\<close>

definition col_min :: "real list \<Rightarrow> real" where
  "col_min c = fold min (tl c) (hd c)"

definition col_max :: "real list \<Rightarrow> real" where
  "col_max c = fold max (tl c) (hd c)"

definition handle_zeros_in_scale :: "real \<Rightarrow> real" where
  "handle_zeros_in_scale r = (if r = 0 then 1 else r)"

definition scaler_fit :: "real list \<Rightarrow> real \<times> real" where
  "scaler_fit c =
     (let scale = 1 / handle_zeros_in_scale (col_max c - col_min c)
      in (scale, 0 - col_min c * scale))"

definition scaler_transform :: "real \<times> real \<Rightarrow> real \<Rightarrow> real" where
  "scaler_transform sc x = x * fst sc + snd sc"

definition scaler_inverse :: "real \<times> real \<Rightarrow> real \<Rightarrow> real" where
  "scaler_inverse sc y = (y - snd sc) / fst sc"

text \<open>The three feature columns \<open>Days\<close>, \<open>Volume\<close>, \<open>MA5\<close> are scaled one by one.\<close>

definition fit_X :: "real list list \<Rightarrow> (real \<times> real) list" where
  "fit_X X = map (\<lambda>j. scaler_fit (map (\<lambda>row. row ! j) X)) [0..<3]"

definition transform_X :: "(real \<times> real) list \<Rightarrow> real list \<Rightarrow> real list" where
  "transform_X scs row = map (\<lambda>(sc, x). scaler_transform sc x) (zip scs row)"

text \<open>
  The fitted \<open>LinearRegression\<close> is its coefficients and intercept; the least-squares
  solver that finds them is a parameter of the forecaster (\<open>None\<close> when it raises).
\<close>

type_synonym linear_model = "real list \<times> real"

type_synonym regression = "real list list \<Rightarrow> real list \<Rightarrow> linear_model option"

definition model_predict :: "linear_model \<Rightarrow> real list \<Rightarrow> real" where
  "model_predict m row = sum_list (map (\<lambda>(x, w). x * w) (zip row (fst m))) + snd m"

text \<open>\<open>r2_score\<close>: a constant target scores 1 when it is met exactly and 0 otherwise.\<close>

definition r2_score :: "real list \<Rightarrow> real list \<Rightarrow> real" where
  "r2_score y_true y_pred =
     (let numerator = sum_list (map (\<lambda>(t, p). (t - p)\<^sup>2) (zip y_true y_pred));
          mean = sum_list y_true / real (length y_true);
          denominator = sum_list (map (\<lambda>t. (t - mean)\<^sup>2) y_true)
      in if denominator \<noteq> 0 then 1 - numerator / denominator
         else if numerator \<noteq> 0 then 0 else 1)"

record forecast_point =
  p_date :: int
  predictedPrice :: "pyfloat option"

record forecast_result =
  predictions :: "forecast_point list"
  confidence :: "pyfloat option"
  model :: string

text \<open>
  The frame after \<open>Days\<close> and \<open>MA5\<close> are added: each row with its day index and its
  5-day average. \<open>DataFrame.dropna()\<close> drops a row that holds NaN in any column.
\<close>

definition add_features :: "price_row list \<Rightarrow> (price_row \<times> int \<times> pyfloat) list" where
  "add_features df =
     zip df (zip (map int [0..<length df]) (rolling_mean 5 (map Close df)))"

definition has_na :: "price_row \<times> int \<times> pyfloat \<Rightarrow> bool" where
  "has_na t =
     (case t of (r, d, ma5) \<Rightarrow>
        isnan (Open r) \<or> isnan (High r) \<or> isnan (Low r) \<or> isnan (Close r)
        \<or> list_ex isnan (Others r) \<or> isnan ma5)"

definition dropna :: "(price_row \<times> int \<times> pyfloat) list \<Rightarrow> (price_row \<times> int \<times> pyfloat) list" where
  "dropna rows = filter (\<lambda>t. \<not> has_na t) rows"

definition feature_row :: "price_row \<times> int \<times> pyfloat \<Rightarrow> pyfloat list" where
  "feature_row t = (case t of (r, d, ma5) \<Rightarrow> [Fin (of_int d), Fin (of_int (Volume r)), ma5])"

text \<open>
  The prediction loop over \<open>range(1, days + 1)\<close>. \<open>now i\<close> is the calendar day that
  \<open>datetime.now()\<close> reads in iteration \<open>i\<close>.
\<close>

fun predict_loop ::
  "(int \<Rightarrow> int) \<Rightarrow> (real \<times> real) list \<Rightarrow> real \<times> real \<Rightarrow> linear_model \<Rightarrow> int \<Rightarrow> real
   \<Rightarrow> real \<Rightarrow> int list \<Rightarrow> forecast_point list" where
  "predict_loop now scaler_X scaler_y m last_day last_volume current_ma5 [] = []"
| "predict_loop now scaler_X scaler_y m last_day last_volume current_ma5 (i # rest) =
     (let future_day = last_day + i;
          future_features = [of_int future_day, last_volume, current_ma5];
          future_features_scaled = transform_X scaler_X future_features;
          pred_scaled = model_predict m future_features_scaled;
          pred_price = safe_float (PyFloat (Fin (scaler_inverse scaler_y pred_scaled))) 0;
          next_ma5 = (current_ma5 * 4 + pred_price) / 5;
          pred_date = now i + i
      in \<lparr>p_date = pred_date, predictedPrice = safe_round (PyFloat (Fin pred_price))\<rparr>
         # predict_loop now scaler_X scaler_y m last_day last_volume next_ma5 rest)"

text \<open>
  \<open>StockAnalyzer.predict_prices\<close>. \<open>hist\<close> is what
  \<open>self.stock.history(period='6mo')\<close> yields (\<open>None\<close> when the call raises). The
  scalers and the solver reject infinite input with an exception.
\<close>

definition predict_prices ::
  "regression \<Rightarrow> (int \<Rightarrow> int) \<Rightarrow> price_row list option \<Rightarrow> int \<Rightarrow> forecast_result option" where
  "predict_prices lr_fit now hist days =
     (case hist of
        None \<Rightarrow> None
      | Some df0 \<Rightarrow>
          if length df0 < 30 then None
          else
            (let df = dropna (add_features df0) in
             if length df < 20 then None
             else
               (let X = map feature_row df;
                    y = map (\<lambda>t. Close (fst t)) df in
                if list_ex (list_ex isnan) X \<or> list_ex isnan y then None
                else if list_ex (list_ex isinf) X \<or> list_ex isinf y then None
                else
                  (let Xr = map (map fin_val) X;
                       yr = map fin_val y;
                       scaler_X = fit_X Xr;
                       scaler_y = scaler_fit yr;
                       X_scaled = map (transform_X scaler_X) Xr;
                       y_scaled = map (scaler_transform scaler_y) yr in
                   case lr_fit X_scaled y_scaled of
                     None \<Rightarrow> None
                   | Some m \<Rightarrow>
                       (let last_day = int (length df);
                            last_volume =
                              safe_float (PyInt (Volume (fst (last df))))
                                (sum_list (map (\<lambda>t. of_int (Volume (fst t))) df)
                                   / real (length df));
                            last_ma5 =
                              safe_float (PyFloat (snd (snd (last df))))
                                (fin_val (Close (fst (last df))));
                            preds =
                              predict_loop now scaler_X scaler_y m last_day last_volume
                                last_ma5 [1..days];
                            y_pred = map (model_predict m) X_scaled;
                            conf = r2_score y_scaled y_pred;
                            confidence_pct =
                              py_max (PyInt 0) (py_min (PyInt 100) (PyFloat (Fin (conf * 100))))
                        in Some \<lparr>predictions = preds,
                                 confidence = safe_round confidence_pct,
                                 model = ''Linear Regression''\<rparr>)))))"

section \<open>Fixtures\<close>

text \<open>Twenty-five trading days on which every price is 100.\<close>

definition flat_fixture :: "price_row list" where
  "flat_fixture =
     map (\<lambda>d. \<lparr>Date = int d, Open = Fin 100, High = Fin 100, Low = Fin 100,
                Close = Fin 100, Volume = 1000, Others = [Fin 0, Fin 0]\<rparr>) [0..<25]"

section \<open>Basic facts\<close>

lemma length_diff [simp]: "length (diff xs) = length xs"
  by (cases xs) simp_all

lemma length_rolling_mean [simp]: "length (rolling_mean w xs) = length xs"
  by (simp add: rolling_mean_def)

lemma length_calculate_rsi [simp]: "length (calculate_rsi prices) = length prices"
  by (simp add: calculate_rsi_def Let_def series_div_def replace0_def rsi_gain_def
      rsi_loss_def where0_def)


subsection \<open>Rounding to two decimals\<close>

lemma py_round2_of_int: "py_round2 (of_int n) = of_int n"
proof -
  have "real_of_int n * 100 = of_int (n * 100)" by simp
  then have f: "\<lfloor>real_of_int n * 100\<rfloor> = n * 100" by (metis floor_of_int)
  show ?thesis
    unfolding py_round2_def Let_def f by simp
qed

lemma py_round2_numeral [simp]: "py_round2 (numeral n) = numeral n"
  using py_round2_of_int [of "numeral n"] by simp

lemma py_round2_zero [simp]: "py_round2 0 = 0"
  using py_round2_of_int [of 0] by simp

lemma py_round2_cent: "\<exists>k::int. py_round2 x = of_int k / 100"
  unfolding py_round2_def Let_def by blast

lemma py_round2_lower:
  assumes "of_int a \<le> x"
  shows "of_int a \<le> py_round2 x"
proof -
  define f where "f = \<lfloor>x * 100\<rfloor>"
  have "of_int (a * 100) \<le> x * 100" using assms by simp
  then have af: "a * 100 \<le> f" unfolding f_def by (simp only: le_floor_iff)
  have "py_round2 x = of_int f / 100 \<or> py_round2 x = of_int (f + 1) / 100"
    unfolding py_round2_def Let_def f_def by auto
  moreover have "real_of_int a \<le> of_int f / 100" using af by (simp add: field_simps)
  moreover have "real_of_int a \<le> of_int (f + 1) / 100" using af by (simp add: field_simps)
  ultimately show ?thesis by auto
qed

lemma py_round2_upper:
  assumes "x \<le> of_int b"
  shows "py_round2 x \<le> of_int b"
proof -
  define f where "f = \<lfloor>x * 100\<rfloor>"
  have xb: "x * 100 \<le> of_int (b * 100)" using assms by simp
  have fx: "of_int f \<le> x * 100" unfolding f_def by (rule of_int_floor_le)
  have fb: "f \<le> b * 100" using xb fx by linarith
  show ?thesis
  proof (cases "x * 100 - of_int f < 1 / 2")
    case True
    then have "py_round2 x = of_int f / 100"
      unfolding py_round2_def Let_def f_def by simp
    then show ?thesis using fb by (simp add: field_simps)
  next
    case False
    then have "of_int f < x * 100" by linarith
    then have "of_int f < real_of_int (b * 100)" using xb by linarith
    then have "f < b * 100" by (simp only: of_int_less_iff)
    then have fb1: "f + 1 \<le> b * 100" by simp
    have "py_round2 x = of_int f / 100 \<or> py_round2 x = of_int (f + 1) / 100"
      unfolding py_round2_def Let_def f_def by auto
    moreover have "of_int f / 100 \<le> real_of_int b" using fb by (simp add: field_simps)
    moreover have "of_int (f + 1) / 100 \<le> real_of_int b" using fb1 by (simp add: field_simps)
    ultimately show ?thesis by auto
  qed
qed

lemma safe_round_int: "safe_round (PyInt n) = Some (Fin (of_int n))"
  by (simp add: py_round2_of_int)

section \<open>The signal classifier\<close>

lemma signal_score_range: "signal_score c m r \<in> {- 3, - 1, 1, 3}"
  by (simp add: signal_score_def)

lemma final_signal_cases:
  "score \<in> {- 3, - 1, 1, 3} \<Longrightarrow>
   final_signal score \<in>
     {(''STRONG SELL'', PyInt 100), (''SELL'', PyInt 60), (''BUY'', PyInt 60),
      (''STRONG BUY'', PyInt 100)}"
  by (auto simp add: final_signal_def py_min_def)

text \<open>On a history that is not empty, the body of the \<open>try\<close> block raises nothing.\<close>

lemma sentiment_body_total:
  assumes "closes \<noteq> []"
  shows "\<exists>r. sentiment_body closes = Some r"
proof -
  obtain c cs where c: "closes = c # cs" using assms by (cases closes) auto
  have 1: "iloc_last closes = Some (last closes)" using c by simp
  have "rolling_mean 20 closes \<noteq> []" using assms
    by (metis length_rolling_mean length_0_conv)
  then have 2: "iloc_last (rolling_mean 20 closes) = Some (last (rolling_mean 20 closes))"
    by (cases "rolling_mean 20 closes") simp_all
  have "calculate_rsi closes \<noteq> []" using assms
    by (metis length_calculate_rsi length_0_conv)
  then have 3: "iloc_last (calculate_rsi closes) = Some (last (calculate_rsi closes))"
    by (cases "calculate_rsi closes") simp_all
  show ?thesis
    by (simp add: sentiment_body_def 1 2 3 Let_def)
qed

lemma sentiment_body_cases:
  assumes "sentiment_body closes = Some r"
  shows "(s_signal r, s_strength r) \<in>
     {(''STRONG SELL'', Some (Fin 100)), (''SELL'', Some (Fin 60)),
      (''BUY'', Some (Fin 60)), (''STRONG BUY'', Some (Fin 100))}"
proof -
  from assms obtain c m v where
    r: "r = \<lparr>s_signal = fst (final_signal (signal_score (safe_float (PyFloat c) 0)
                (safe_float (PyFloat m) 0) (safe_float (PyFloat v) 50))),
       s_strength = safe_round (snd (final_signal (signal_score (safe_float (PyFloat c) 0)
                (safe_float (PyFloat m) 0) (safe_float (PyFloat v) 50)))),
       s_rsi = safe_round (PyFloat (Fin (safe_float (PyFloat v) 50))),
       s_price_vs_ma20 =
         safe_round (price_deviation (safe_float (PyFloat c) 0) (safe_float (PyFloat m) 0))\<rparr>"
    by (auto simp add: sentiment_body_def Let_def split: option.splits)
  define sc where
    "sc = signal_score (safe_float (PyFloat c) 0) (safe_float (PyFloat m) 0)
            (safe_float (PyFloat v) 50)"
  have "sc \<in> {- 3, - 1, 1, 3}" unfolding sc_def by (rule signal_score_range)
  then have "final_signal sc \<in>
      {(''STRONG SELL'', PyInt 100), (''SELL'', PyInt 60), (''BUY'', PyInt 60),
       (''STRONG BUY'', PyInt 100)}"
    by (rule final_signal_cases)
  then show ?thesis unfolding r sc_def[symmetric] by (auto simp add: safe_round_int)
qed

lemma flat_eval:
  "iloc_last (rolling_mean 20 (replicate 25 (Fin 100))) = Some (Fin 100)
   \<and> iloc_last (calculate_rsi (replicate 25 (Fin 100))) = Some NaN
   \<and> sentiment_body (replicate 25 (Fin 100)) =
      Some \<lparr>s_signal = ''SELL'', s_strength = Some (Fin 60), s_rsi = Some (Fin 50),
            s_price_vs_ma20 = Some (Fin 0)\<rparr>"
  by code_simp

lemma flat_fixture_closes: "map Close flat_fixture = replicate 25 (Fin 100)"
  by code_simp

lemma flat_fixture_length: "length flat_fixture = 25"
  by (simp add: flat_fixture_def)

text \<open>
  C1, as the spec states it: on a close that is flat at 100 for 25 days the classifier
  answers HOLD with strength 50. It does not: the close is not above its 20-day average,
  so the score is \<open>-1\<close>, and the answer on the fixture is not HOLD with strength 50.
\<close>

theorem C1_flat_not_hold:
  "\<not> (s_signal (get_sentiment_signal (Some flat_fixture)) = ''HOLD''
      \<and> s_strength (get_sentiment_signal (Some flat_fixture)) = Some (Fin 50))"
  by (simp add: get_sentiment_signal_def flat_fixture_length flat_fixture_closes flat_eval)

text \<open>
  C1, amended: on every history whose close is flat at 100 for 25 days the 20-day
  average of the last row is 100, the last RSI is NaN (so the fallback 50 is used), and
  the classifier answers SELL with strength 60, RSI 50 and price deviation 0.
\<close>

theorem C1_flat_series:
  assumes "map Close df = replicate 25 (Fin 100)"
  shows "iloc_last (rolling_mean 20 (map Close df)) = Some (Fin 100)
     \<and> iloc_last (calculate_rsi (map Close df)) = Some NaN
     \<and> get_sentiment_signal (Some df) =
        \<lparr>s_signal = ''SELL'', s_strength = Some (Fin 60), s_rsi = Some (Fin 50),
         s_price_vs_ma20 = Some (Fin 0)\<rparr>"
proof -
  have "length (map Close df) = 25" by (simp only: assms length_replicate)
  then have len: "length df = 25" by simp
  have ma: "iloc_last (rolling_mean 20 (map Close df)) = Some (Fin 100)"
    using flat_eval by (simp only: assms)
  have rsi: "iloc_last (calculate_rsi (map Close df)) = Some NaN"
    using flat_eval by (simp only: assms)
  have body: "sentiment_body (map Close df) =
      Some \<lparr>s_signal = ''SELL'', s_strength = Some (Fin 60), s_rsi = Some (Fin 50),
            s_price_vs_ma20 = Some (Fin 0)\<rparr>"
    using flat_eval by (simp only: assms)
  have "get_sentiment_signal (Some df) =
      \<lparr>s_signal = ''SELL'', s_strength = Some (Fin 60), s_rsi = Some (Fin 50),
       s_price_vs_ma20 = Some (Fin 0)\<rparr>"
    by (simp add: get_sentiment_signal_def len body)
  with ma rsi show ?thesis by simp
qed

theorem C1_flat_series_witness:
  "map Close flat_fixture = replicate 25 (Fin 100)
   \<and> get_sentiment_signal (Some flat_fixture) =
      \<lparr>s_signal = ''SELL'', s_strength = Some (Fin 60), s_rsi = Some (Fin 50),
       s_price_vs_ma20 = Some (Fin 0)\<rparr>"
  using C1_flat_series [OF flat_fixture_closes] flat_fixture_closes by simp

text \<open>
  C8: a history of fewer than 20 rows gives HOLD with strength 0 and no RSI and no
  price deviation, as a value and not as an error; a failure of the data source or of
  the computation gives the same result.
\<close>

theorem C8_degenerate_signal:
  "(length df < 20 \<longrightarrow>
      get_sentiment_signal (Some df) =
        \<lparr>s_signal = ''HOLD'', s_strength = Some (Fin 0), s_rsi = None,
         s_price_vs_ma20 = None\<rparr>)
   \<and> get_sentiment_signal None =
        \<lparr>s_signal = ''HOLD'', s_strength = Some (Fin 0), s_rsi = None,
         s_price_vs_ma20 = None\<rparr>
   \<and> (sentiment_body (map Close df) = None \<longrightarrow>
        get_sentiment_signal (Some df) =
          \<lparr>s_signal = ''HOLD'', s_strength = Some (Fin 0), s_rsi = None,
           s_price_vs_ma20 = None\<rparr>)"
  by (simp add: get_sentiment_signal_def degenerate_signal_def)

theorem C8_degenerate_signal_witness:
  "length (take 19 flat_fixture) < 20
   \<and> get_sentiment_signal (Some (take 19 flat_fixture)) =
        \<lparr>s_signal = ''HOLD'', s_strength = Some (Fin 0), s_rsi = None,
         s_price_vs_ma20 = None\<rparr>
   \<and> sentiment_body (map Close []) = None
   \<and> get_sentiment_signal (Some []) =
        \<lparr>s_signal = ''HOLD'', s_strength = Some (Fin 0), s_rsi = None,
         s_price_vs_ma20 = None\<rparr>"
  using C8_degenerate_signal [of "take 19 flat_fixture"] C8_degenerate_signal [of "[]"]
  by (simp add: sentiment_body_def)

text \<open>
  C10: with at least 20 rows the score is one of \<open>-3\<close>, \<open>-1\<close>, \<open>1\<close>, \<open>3\<close>, the body of
  the \<open>try\<close> block raises nothing, the label is never HOLD, and the strength is 60 or
  100.
\<close>

theorem C10_no_hold:
  assumes "20 \<le> length df"
  shows "(\<forall>current_price ma20 rsi.
            signal_score current_price ma20 rsi \<in> {- 3, - 1, 1, 3})
     \<and> sentiment_body (map Close df) \<noteq> None
     \<and> s_signal (get_sentiment_signal (Some df)) \<noteq> ''HOLD''
     \<and> (s_strength (get_sentiment_signal (Some df)) = Some (Fin 60)
        \<or> s_strength (get_sentiment_signal (Some df)) = Some (Fin 100))"
proof -
  have ne: "map Close df \<noteq> []" using assms by auto
  then obtain r where r: "sentiment_body (map Close df) = Some r"
    using sentiment_body_total by blast
  have g: "get_sentiment_signal (Some df) = r"
    using assms r by (simp add: get_sentiment_signal_def)
  have sc: "\<forall>current_price ma20 rsi.
      signal_score current_price ma20 rsi \<in> {- 3, - 1, 1, 3}"
    using signal_score_range by blast
  have lab: "s_signal r \<noteq> ''HOLD''"
    using sentiment_body_cases [OF r] by auto
  have str: "s_strength r = Some (Fin 60) \<or> s_strength r = Some (Fin 100)"
    using sentiment_body_cases [OF r] by auto
  show ?thesis
    unfolding g using sc lab str r by simp
qed

theorem C10_no_hold_witness:
  "20 \<le> length flat_fixture
   \<and> s_signal (get_sentiment_signal (Some flat_fixture)) \<noteq> ''HOLD''
   \<and> (s_strength (get_sentiment_signal (Some flat_fixture)) = Some (Fin 60)
      \<or> s_strength (get_sentiment_signal (Some flat_fixture)) = Some (Fin 100))"
proof -
  have h: "20 \<le> length flat_fixture" by (simp add: flat_fixture_length)
  show ?thesis using h C10_no_hold [OF h] by simp
qed

end
